theory Spec2Isabelle
  imports Main "HOL-Library.AList"
begin

section \<open>JavaScript values\<close>

text \<open>
  The program is an Express application (\<^verbatim>\<open>src/index.ts\<close>) that keeps its videos in one
  module-level array. Request bodies are produced by \<^verbatim>\<open>bodyParser.json()\<close>, so every
  value the handlers see is a JSON value, or \<^verbatim>\<open>undefined\<close> when a property is missing.
  A request body is an object. (The parser also accepts an array as body; an array has
  none of the properties that the handlers read, so it is validated like the empty
  object and rejected.)

  \<^item> A number is an integer, \<^verbatim>\<open>NaN\<close> (which \<^verbatim>\<open>+req.params.id\<close> yields for a path segment that
    is not numeric) or another number: a fraction, \<^verbatim>\<open>Infinity\<close> or \<^verbatim>\<open>-Infinity\<close>. The
    program only tests the numbers of a request for truthiness, compares them with \<^verbatim>\<open>===\<close>
    and prints them, so a number that is not an integer is given by the string that
    \<^verbatim>\<open>Number.prototype.toString\<close> prints for it; such a number is not zero, and two of them
    are equal when they print alike.
  \<^item> A string is the list of its code units, and \<^verbatim>\<open>.length\<close> is the length of that list.
  \<^item> An object is the list of its own properties in insertion order. Keys of an object
    are pairwise distinct; a property is read with \<open>getProp\<close>.
  \<^item> An exception that the language raises is a value of type \<open>exn\<close>; a computation
    that may raise returns \<open>exn + 'a\<close>, with \<open>Inl\<close> for the exception.
\<close>

datatype exn = TypeError | RangeError

datatype number = Num int | NaN | Other string

datatype json =
    JUndefined
  | JNull
  | JBool bool
  | JNum number
  | JStr string
  | JArr "json list"
  | JObj "(string \<times> json) list"

type_synonym obj = "(string \<times> json) list"

text \<open>\<^verbatim>\<open>o[k]\<close> for a key that \<^verbatim>\<open>Object.prototype\<close> does not define: the own property, or
  \<^verbatim>\<open>undefined\<close>.\<close>

definition getProp :: "obj \<Rightarrow> string \<Rightarrow> json" where
  "getProp ob k = (case map_of ob k of None \<Rightarrow> JUndefined | Some v \<Rightarrow> v)"

text \<open>Truthiness (\<^verbatim>\<open>ToBoolean\<close>) and the operator \<^verbatim>\<open>||\<close>.\<close>

fun truthy :: "json \<Rightarrow> bool" where
  "truthy JUndefined = False"
| "truthy JNull = False"
| "truthy (JBool b) = b"
| "truthy (JNum (Num i)) = (i \<noteq> 0)"
| "truthy (JNum NaN) = False"
| "truthy (JNum (Other s)) = True"
| "truthy (JStr s) = (s \<noteq> [])"
| "truthy (JArr xs) = True"
| "truthy (JObj kvs) = True"

definition js_or :: "json \<Rightarrow> json \<Rightarrow> json" where
  "js_or a b = (if truthy a then a else b)"

fun typeof :: "json \<Rightarrow> string" where
  "typeof JUndefined = ''undefined''"
| "typeof JNull = ''object''"
| "typeof (JBool b) = ''boolean''"
| "typeof (JNum n) = ''number''"
| "typeof (JStr s) = ''string''"
| "typeof (JArr xs) = ''object''"
| "typeof (JObj kvs) = ''object''"

fun Array_isArray :: "json \<Rightarrow> bool" where
  "Array_isArray (JArr xs) = True"
| "Array_isArray v = False"

text \<open>\<^verbatim>\<open>v === n\<close> where the right operand is a number: true only for the same number, and
  never for \<^verbatim>\<open>NaN\<close>.\<close>

fun strict_eq_number :: "json \<Rightarrow> number \<Rightarrow> bool" where
  "strict_eq_number (JNum (Num i)) (Num j) = (i = j)"
| "strict_eq_number (JNum (Other s)) (Other t) = (s = t)"
| "strict_eq_number v n = False"

subsection \<open>Conversion to string\<close>

text \<open>Decimal digits of an integer, as \<^verbatim>\<open>Number.prototype.toString\<close> prints an integer
  below \<open>10\<^sup>2\<^sup>1\<close> in absolute value (a larger one is printed with an exponent; the
  digits of a number only show in the messages of lines 56, 60 and 71).\<close>

definition digit_char :: "int \<Rightarrow> char" where
  "digit_char d = ''0123456789'' ! nat (d mod 10)"

function digits :: "int \<Rightarrow> string" where
  "digits n = (if n < 10 then [digit_char n] else digits (n div 10) @ [digit_char n])"
  by pat_completeness auto
termination
  by (relation "measure nat") auto

declare digits.simps [simp del]

definition string_of_int :: "int \<Rightarrow> string" where
  "string_of_int i = (if i < 0 then CHR ''-'' # digits (- i) else digits i)"

fun Number_toString :: "number \<Rightarrow> string" where
  "Number_toString (Num i) = string_of_int i"
| "Number_toString NaN = ''NaN''"
| "Number_toString (Other s) = s"

fun sequence :: "(exn + 'a) list \<Rightarrow> exn + 'a list" where
  "sequence [] = Inr []"
| "sequence (r # rs) =
     (case r of
        Inl e \<Rightarrow> Inl e
      | Inr x \<Rightarrow> (case sequence rs of Inl e \<Rightarrow> Inl e | Inr xs \<Rightarrow> Inr (x # xs)))"

fun join_comma :: "string list \<Rightarrow> string" where
  "join_comma [] = []"
| "join_comma [s] = s"
| "join_comma (s # t # ts) = s @ '','' @ join_comma (t # ts)"

text \<open>
  \<^verbatim>\<open>ToString(v)\<close>, the conversion a template literal \<^verbatim>\<open>`${v}`\<close> applies.
  \<^item> An array is converted by \<^verbatim>\<open>Array.prototype.join\<close>: its elements converted and
    separated by commas, \<^verbatim>\<open>undefined\<close> and \<^verbatim>\<open>null\<close> printing as the empty string.
  \<^item> An object is converted by \<^verbatim>\<open>OrdinaryToPrimitive\<close> with hint string: the method
    \<^verbatim>\<open>toString\<close> is looked up first. A parsed JSON object inherits
    \<^verbatim>\<open>Object.prototype.toString\<close>, which returns \<^verbatim>\<open>"[object Object]"\<close>, unless it has
    an own property \<^verbatim>\<open>toString\<close>. An own property of a JSON object is never callable, so
    \<^verbatim>\<open>valueOf\<close> is tried next; \<^verbatim>\<open>Object.prototype.valueOf\<close> returns the object itself
    and an own \<^verbatim>\<open>valueOf\<close> is not callable either, so no primitive is found and a
    \<^verbatim>\<open>TypeError\<close> is thrown.
\<close>

fun ToString :: "json \<Rightarrow> exn + string" where
  "ToString JUndefined = Inr ''undefined''"
| "ToString JNull = Inr ''null''"
| "ToString (JBool b) = Inr (if b then ''true'' else ''false'')"
| "ToString (JNum n) = Inr (Number_toString n)"
| "ToString (JStr s) = Inr s"
| "ToString (JArr xs) =
     (case sequence (map (\<lambda>x. if x = JUndefined \<or> x = JNull then Inr [] else ToString x) xs) of
        Inl e \<Rightarrow> Inl e
      | Inr strs \<Rightarrow> Inr (join_comma strs))"
| "ToString (JObj kvs) =
     (if ''toString'' \<in> fst ` set kvs then Inl TypeError else Inr ''[object Object]'')"

section \<open>Field validation\<close>

text \<open>\<^verbatim>\<open>type ValidationRule\<close> (lines 31-39). An optional field that is left out is \<open>None\<close>.\<close>

record ValidationRule =
  fieldName :: string
  isRequired :: "bool option"
  minLength :: "int option"
  maxLength :: "int option"
  isString :: "bool option"
  isArray :: "bool option"
  enumValues :: "string list option"

text \<open>An optional boolean flag used as a condition: \<^verbatim>\<open>undefined\<close> and \<^verbatim>\<open>false\<close> are falsy.\<close>

definition flag :: "bool option \<Rightarrow> bool" where
  "flag b = (b = Some True)"

text \<open>\<^verbatim>\<open>value.length\<close> of a string.\<close>

fun String_length :: "json \<Rightarrow> nat" where
  "String_length (JStr s) = length s"
| "String_length v = 0"

text \<open>Lines 50-62, entered when \<^verbatim>\<open>isString\<close> is set: \<open>Some\<close> is the message returned,
  \<open>None\<close> means that control falls through to line 64.\<close>

definition stringChecks :: "json \<Rightarrow> ValidationRule \<Rightarrow> string option" where
  "stringChecks v rules =
     (if typeof v \<noteq> ''string'' then
        Some (fieldName rules @ '' must be a string.'')
      else if minLength rules \<noteq> None \<and> int (String_length v) < the (minLength rules) then
        Some (''Invalid '' @ fieldName rules @ '' length (minimum ''
              @ string_of_int (the (minLength rules)) @ '' characters).'')
      else if maxLength rules \<noteq> None \<and> int (String_length v) > the (maxLength rules) then
        Some (''Invalid '' @ fieldName rules @ '' length (maximum ''
              @ string_of_int (the (maxLength rules)) @ '' characters).'')
      else None)"

text \<open>\<^verbatim>\<open>enumValues.includes(item)\<close>: the enum values are strings, so only an equal string is
  included.\<close>

fun Array_includes :: "string list \<Rightarrow> json \<Rightarrow> bool" where
  "Array_includes vs (JStr s) = (s \<in> set vs)"
| "Array_includes vs v = False"

text \<open>The loop of lines 69-73 over the items of the array. The message is built with
  \<^verbatim>\<open>`${item}`\<close>, so building it can throw.\<close>

fun enumLoop :: "string \<Rightarrow> string list \<Rightarrow> json list \<Rightarrow> exn + string option" where
  "enumLoop fn vs [] = Inr None"
| "enumLoop fn vs (item # items) =
     (if \<not> Array_includes vs item then
        (case ToString item of
           Inl e \<Rightarrow> Inl e
         | Inr s \<Rightarrow> Inr (Some (''Invalid '' @ fn @ '': '' @ s)))
      else enumLoop fn vs items)"

text \<open>\<^verbatim>\<open>validateField\<close> (lines 43-77): \<open>Inr None\<close> is the result \<^verbatim>\<open>null\<close>.\<close>

definition validateField :: "json \<Rightarrow> ValidationRule \<Rightarrow> exn + string option" where
  "validateField v rules =
     (if flag (isRequired rules) \<and> (v = JUndefined \<or> v = JNull) then
        Inr (Some (fieldName rules @ '' is required.''))
      else
        (case (if flag (isString rules) then stringChecks v rules else None) of
           Some msg \<Rightarrow> Inr (Some msg)
         | None \<Rightarrow>
             (if flag (isArray rules) \<and> \<not> Array_isArray v then
                Inr (Some (fieldName rules @ '' must be an array.''))
              else if enumValues rules \<noteq> None \<and> flag (isArray rules) then
                (case v of
                   JArr items \<Rightarrow> enumLoop (fieldName rules) (the (enumValues rules)) items
                 | _ \<Rightarrow> Inr None)
              else Inr None)))"

section \<open>Entity validation\<close>

text \<open>\<^verbatim>\<open>Object.values(VideoQuality)\<close> (lines 9-18), in declaration order.\<close>

definition VideoQuality :: "string list" where
  "VideoQuality = [''144p'', ''240p'', ''360p'', ''480p'', ''720p'', ''1080p'', ''1440p'', ''2160p'']"

text \<open>The three rules of lines 80-84.\<close>

definition titleRule :: ValidationRule where
  "titleRule = \<lparr>fieldName = ''title'', isRequired = Some True, minLength = Some 1,
     maxLength = Some 40, isString = Some True, isArray = None, enumValues = None\<rparr>"

definition authorRule :: ValidationRule where
  "authorRule = \<lparr>fieldName = ''author'', isRequired = Some True, minLength = Some 1,
     maxLength = Some 20, isString = Some True, isArray = None, enumValues = None\<rparr>"

definition resolutionsRule :: ValidationRule where
  "resolutionsRule = \<lparr>fieldName = ''availableResolutions'', isRequired = Some True,
     minLength = None, maxLength = None, isString = None, isArray = Some True,
     enumValues = Some VideoQuality\<rparr>"

definition validationRules :: "ValidationRule list" where
  "validationRules = [titleRule, authorRule, resolutionsRule]"

text \<open>The loop of lines 88-93 with its accumulator \<^verbatim>\<open>errors\<close>. The test
  \<^verbatim>\<open>if (validationError)\<close> is a truthiness test: \<^verbatim>\<open>null\<close> and the empty string are
  skipped. An exception of \<^verbatim>\<open>validateField\<close> leaves the loop.\<close>

fun validateLoop :: "obj \<Rightarrow> ValidationRule list \<Rightarrow> string list \<Rightarrow> exn + string list" where
  "validateLoop body [] errors = Inr errors"
| "validateLoop body (rule # rest) errors =
     (case validateField (getProp body (fieldName rule)) rule of
        Inl e \<Rightarrow> Inl e
      | Inr validationError \<Rightarrow>
          validateLoop body rest
            (case validationError of
               None \<Rightarrow> errors
             | Some message \<Rightarrow> if message \<noteq> [] then errors @ [message] else errors))"

text \<open>\<^verbatim>\<open>validateVideoInput\<close> (lines 79-96), applied to \<^verbatim>\<open>req.body\<close>.\<close>

definition validateVideoInput :: "obj \<Rightarrow> exn + string list" where
  "validateVideoInput reqBody = validateLoop reqBody validationRules []"

section \<open>Dates\<close>

text \<open>
  A time value is a number of milliseconds since the epoch. \<^verbatim>\<open>new Date(t)\<close> is a valid date
  when \<open>\<bar>t\<bar> \<le> 8.64\<cdot>10\<^sup>1\<^sup>5\<close>; \<^verbatim>\<open>toISOString\<close> of an invalid date throws \<^verbatim>\<open>RangeError\<close>.
  The calendar date of a day number is computed in the proleptic Gregorian calendar,
  by eras of 400 years that start on 1 March.
\<close>

definition msPerDay :: int where
  "msPerDay = 86400000"

definition maxTime :: int where
  "maxTime = 8640000000000000"

definition civil_from_days :: "int \<Rightarrow> int \<times> int \<times> int" where
  "civil_from_days days =
     (let z = days + 719468;
          era = z div 146097;
          doe = z mod 146097;
          yoe = (doe - doe div 1460 + doe div 36524 - doe div 146096) div 365;
          doy = doe - (365 * yoe + yoe div 4 - yoe div 100);
          mp = (5 * doy + 2) div 153;
          d = doy - (153 * mp + 2) div 5 + 1;
          m = (if mp < 10 then mp + 3 else mp - 9);
          y = yoe + era * 400 + (if m \<le> 2 then 1 else 0)
      in (y, m, d))"

text \<open>\<open>pad w n\<close>: the last \<open>w\<close> decimal digits of \<open>n\<close>, with leading zeros.\<close>

fun pad :: "nat \<Rightarrow> int \<Rightarrow> string" where
  "pad 0 n = []"
| "pad (Suc w) n = pad w (n div 10) @ [digit_char n]"

definition toISOString :: "int \<Rightarrow> exn + string" where
  "toISOString t =
     (if \<bar>t\<bar> > maxTime then Inl RangeError
      else
        (let (y, m, d) = civil_from_days (t div msPerDay);
             ms = t mod msPerDay;
             year = (if 0 \<le> y \<and> y \<le> 9999 then pad 4 y
                     else (if y < 0 then ''-'' else ''+'') @ pad 6 \<bar>y\<bar>)
         in Inr (year @ ''-'' @ pad 2 m @ ''-'' @ pad 2 d @ ''T''
                 @ pad 2 (ms div 3600000) @ '':'' @ pad 2 (ms div 60000 mod 60) @ '':''
                 @ pad 2 (ms div 1000 mod 60) @ ''.'' @ pad 3 (ms mod 1000) @ ''Z'')))"

section \<open>The store and the request handlers\<close>

text \<open>
  \<^verbatim>\<open>const videos: VideoType[] = []\<close> (line 41). A handler takes the array and returns it as
  the handler leaves it. A stored video is an object: \<^verbatim>\<open>PUT\<close> stores the spread of the old
  video and the request body, so a stored video can hold any property of a body.
\<close>

type_synonym video = obj
type_synonym store = "video list"

record response =
  statusCode :: nat
  jsonBody :: json

text \<open>The result of a handler: the response sent, or the exception that left the handler
  (Express answers it with status 500).\<close>

type_synonym outcome = "exn + response"

text \<open>\<^verbatim>\<open>Array.prototype.findIndex\<close>: the first index whose element satisfies the predicate;
  \<open>None\<close> is the result \<^verbatim>\<open>-1\<close>.\<close>

fun findIndex :: "('a \<Rightarrow> bool) \<Rightarrow> 'a list \<Rightarrow> nat option" where
  "findIndex p [] = None"
| "findIndex p (x # xs) = (if p x then Some 0 else map_option Suc (findIndex p xs))"

text \<open>\<^verbatim>\<open>xs.splice(start, deleteCount, ...items)\<close> for \<open>start \<le> length xs\<close>: the array after
  the call.\<close>

definition Array_splice :: "nat \<Rightarrow> nat \<Rightarrow> 'a list \<Rightarrow> 'a list \<Rightarrow> 'a list" where
  "Array_splice start deleteCount items xs = take start xs @ items @ drop (start + deleteCount) xs"

text \<open>\<^verbatim>\<open>{...a, ...b}\<close>: a new object with the own properties of \<open>a\<close>, to which the own
  properties of \<open>b\<close> are assigned in their order. Assigning an existing key replaces its
  value in place, a new key is appended.\<close>

definition spread :: "obj \<Rightarrow> obj \<Rightarrow> obj" where
  "spread a b = fold (\<lambda>(k, v). AList.update k v) b a"

text \<open>The predicate of the three \<^verbatim>\<open>findIndex\<close> calls: \<^verbatim>\<open>video.id === +req.params.id\<close>.\<close>

definition hasId :: "number \<Rightarrow> video \<Rightarrow> bool" where
  "hasId rid video = strict_eq_number (getProp video ''id'') rid"

text \<open>The body of the two 400 responses (lines 116-121 and 143-148).\<close>

definition errorsMessages :: "string list \<Rightarrow> json" where
  "errorsMessages validationErrors =
     JObj [(''errorsMessages'',
            JArr (map (\<lambda>message. JObj [(''message'', JStr message), (''field'', JStr ''validation'')])
                   validationErrors))]"

text \<open>\<^verbatim>\<open>GET /videos\<close> (lines 98-100).\<close>

definition get_videos :: "store \<Rightarrow> outcome \<times> store" where
  "get_videos videos = (Inr \<lparr>statusCode = 200, jsonBody = JArr (map JObj videos)\<rparr>, videos)"

text \<open>\<^verbatim>\<open>GET /videos/:id\<close> (lines 102-110); \<open>rid\<close> is \<^verbatim>\<open>+req.params.id\<close>. A response sent as a
  bare status has the body \<open>JUndefined\<close>.\<close>

definition get_video :: "number \<Rightarrow> store \<Rightarrow> outcome \<times> store" where
  "get_video rid videos =
     (case findIndex (hasId rid) videos of
        Some videoIndex \<Rightarrow> (Inr \<lparr>statusCode = 200, jsonBody = JObj (videos ! videoIndex)\<rparr>, videos)
      | None \<Rightarrow> (Inr \<lparr>statusCode = 404, jsonBody = JUndefined\<rparr>, videos))"

text \<open>
  \<^verbatim>\<open>POST /videos\<close> (lines 112-137). The handler reads the clock three times: \<open>now1\<close> is
  \<^verbatim>\<open>Date.now()\<close> of line 125, \<open>now2\<close> the time of \<^verbatim>\<open>new Date()\<close> of line 130 and \<open>now3\<close> is
  \<^verbatim>\<open>Date.now()\<close> of line 131. \<open>newVideo\<close> is the object literal of lines 124-133, given
  the two date strings.
\<close>

definition newVideo :: "int \<Rightarrow> string \<Rightarrow> string \<Rightarrow> obj \<Rightarrow> video" where
  "newVideo now1 createdAt publicationDate reqBody =
     [(''id'', JNum (Num now1)),
      (''title'', getProp reqBody ''title''),
      (''author'', getProp reqBody ''author''),
      (''canBeDownloaded'', js_or (getProp reqBody ''canBeDownloaded'') (JBool False)),
      (''minAgeRestriction'', js_or (getProp reqBody ''minAgeRestriction'') JNull),
      (''createdAt'', JStr createdAt),
      (''publicationDate'', JStr publicationDate),
      (''availableResolutions'', js_or (getProp reqBody ''availableResolutions'') (JArr []))]"

definition post_videos :: "int \<Rightarrow> int \<Rightarrow> int \<Rightarrow> obj \<Rightarrow> store \<Rightarrow> outcome \<times> store" where
  "post_videos now1 now2 now3 reqBody videos =
     (case validateVideoInput reqBody of
        Inl e \<Rightarrow> (Inl e, videos)
      | Inr validationErrors \<Rightarrow>
          if length validationErrors > 0 then
            (Inr \<lparr>statusCode = 400, jsonBody = errorsMessages validationErrors\<rparr>, videos)
          else
            (case toISOString now2 of
               Inl e \<Rightarrow> (Inl e, videos)
             | Inr createdAt \<Rightarrow>
                 (case toISOString (now3 + 86400000) of
                    Inl e \<Rightarrow> (Inl e, videos)
                  | Inr publicationDate \<Rightarrow>
                      (let video = newVideo now1 createdAt publicationDate reqBody
                       in (Inr \<lparr>statusCode = 201, jsonBody = JObj video\<rparr>, videos @ [video])))))"

text \<open>\<^verbatim>\<open>PUT /videos/:id\<close> (lines 139-170).\<close>

definition put_videos :: "number \<Rightarrow> obj \<Rightarrow> store \<Rightarrow> outcome \<times> store" where
  "put_videos rid reqBody videos =
     (case validateVideoInput reqBody of
        Inl e \<Rightarrow> (Inl e, videos)
      | Inr validationErrors \<Rightarrow>
          if length validationErrors > 0 then
            (Inr \<lparr>statusCode = 400, jsonBody = errorsMessages validationErrors\<rparr>, videos)
          else
            (case findIndex (hasId rid) videos of
               Some videoIndex \<Rightarrow>
                 (Inr \<lparr>statusCode = 204, jsonBody = JUndefined\<rparr>,
                  Array_splice videoIndex 1 [spread (videos ! videoIndex) reqBody] videos)
             | None \<Rightarrow>
                 (Inr \<lparr>statusCode = 404,
                       jsonBody = JObj [(''errorsMessages'',
                                JArr [JObj [(''message'', JStr ''Video not found''),
                                            (''field'', JStr ''id'')]])]\<rparr>,
                  videos)))"

text \<open>\<^verbatim>\<open>DELETE /videos/:id\<close> (lines 172-181).\<close>

definition delete_videos :: "number \<Rightarrow> store \<Rightarrow> outcome \<times> store" where
  "delete_videos rid videos =
     (case findIndex (hasId rid) videos of
        Some index \<Rightarrow> (Inr \<lparr>statusCode = 204, jsonBody = JUndefined\<rparr>, Array_splice index 1 [] videos)
      | None \<Rightarrow> (Inr \<lparr>statusCode = 404, jsonBody = JUndefined\<rparr>, videos))"

subsection \<open>Sequences of requests\<close>

text \<open>Requests are handled one at a time, each to completion. The store is empty when
  the process starts.\<close>

datatype request =
    GetVideos
  | GetVideo number
  | PostVideos int int int obj
  | PutVideos number obj
  | DeleteVideos number

fun handle :: "request \<Rightarrow> store \<Rightarrow> outcome \<times> store" where
  "handle GetVideos videos = get_videos videos"
| "handle (GetVideo rid) videos = get_video rid videos"
| "handle (PostVideos now1 now2 now3 reqBody) videos = post_videos now1 now2 now3 reqBody videos"
| "handle (PutVideos rid reqBody) videos = put_videos rid reqBody videos"
| "handle (DeleteVideos rid) videos = delete_videos rid videos"

fun run :: "request list \<Rightarrow> store \<Rightarrow> outcome list \<times> store" where
  "run [] videos = ([], videos)"
| "run (r # rs) videos =
     (case handle r videos of
        (out, videos') \<Rightarrow> (case run rs videos' of (outs, videos'') \<Rightarrow> (out # outs, videos'')))"

section \<open>Notions used to state the properties\<close>

text \<open>The concatenation of the results of the field validator that are not \<^verbatim>\<open>null\<close>, in
  the order of the results.\<close>

definition nonNull :: "string option list \<Rightarrow> string list" where
  "nonNull results =
     concat (map (\<lambda>r. case r of None \<Rightarrow> [] | Some message \<Rightarrow> [message]) results)"

text \<open>A property that a request body does not carry: reading it yields \<^verbatim>\<open>undefined\<close>; a
  JSON body can also carry \<^verbatim>\<open>null\<close>.\<close>

definition absent :: "json \<Rightarrow> bool" where
  "absent v = (v = JUndefined \<or> v = JNull)"

text \<open>The id of a stored video, as the \<^verbatim>\<open>findIndex\<close> calls read it.\<close>

definition idOf :: "video \<Rightarrow> json" where
  "idOf video = getProp video ''id''"

text \<open>The valid payload of the example of the specification:
  \<^verbatim>\<open>{title: "A", author: "B", availableResolutions: ["720p"]}\<close>.\<close>

definition sampleBody :: obj where
  "sampleBody =
     [(''title'', JStr ''A''), (''author'', JStr ''B''),
      (''availableResolutions'', JArr [JStr ''720p''])]"

text \<open>An Update whose payload has an own property \<^verbatim>\<open>id\<close>.\<close>

definition carriesId :: "request \<Rightarrow> bool" where
  "carriesId r = (case r of PutVideos rid reqBody \<Rightarrow> ''id'' \<in> set (map fst reqBody) | _ \<Rightarrow> False)"



text \<open>The ids that the Create requests of a sequence take from the clock (line 125).\<close>

fun clockIds :: "request list \<Rightarrow> json list" where
  "clockIds [] = []"
| "clockIds (PostVideos now1 now2 now3 reqBody # rs) = JNum (Num now1) # clockIds rs"
| "clockIds (r # rs) = clockIds rs"

section \<open>Properties of the field validator\<close>

lemma enumLoop_nonempty: "enumLoop fn vs items = Inr (Some m) \<Longrightarrow> m \<noteq> []"
  by (induction items) (auto split: if_splits sum.splits)

lemma stringChecks_nonempty: "stringChecks v rules = Some m \<Longrightarrow> m \<noteq> []"
  by (auto simp: stringChecks_def split: json.splits if_splits)

lemma validateField_nonempty: "validateField v rules = Inr (Some m) \<Longrightarrow> m \<noteq> []"
  by (auto simp: validateField_def split: if_splits option.splits json.splits
      dest: enumLoop_nonempty stringChecks_nonempty)

text \<open>Only the loop over the items of an array can throw.\<close>

lemma validateField_no_array: "\<not> flag (isArray rules) \<Longrightarrow> \<exists>r. validateField v rules = Inr r"
  by (auto simp: validateField_def split: option.splits)

text \<open>
  C1 (as stated: a value that is absent and not required yields no error, whatever the
  other flags are). The code has no such guard: after the required check (line 46) an
  absent value reaches the type checks. The claim fails for a rule with \<^verbatim>\<open>isString\<close>: the
  absent value is not a string and line 52 returns a message.
\<close>

theorem validateField_absent_optional_counterexample:
  "\<not> (\<forall>v rules. isRequired rules = Some False \<and> (v = JUndefined \<or> v = JNull)
         \<longrightarrow> validateField v rules = Inr None)"
proof
  assume a: "\<forall>v rules. isRequired rules = Some False \<and> (v = JUndefined \<or> v = JNull)
               \<longrightarrow> validateField v rules = Inr None"
  have "validateField JUndefined
          \<lparr>fieldName = ''note'', isRequired = Some False, minLength = None, maxLength = None,
           isString = Some True, isArray = None, enumValues = None\<rparr> = Inr None"
    using a by simp
  then show False
    by (simp add: validateField_def stringChecks_def flag_def)
qed

text \<open>
  C1 (amended). For a rule whose \<^verbatim>\<open>isRequired\<close> is false or left out and a value that is
  \<^verbatim>\<open>undefined\<close> or \<^verbatim>\<open>null\<close>, \<^verbatim>\<open>validateField\<close> returns: the message
  "<field> must be a string." when \<^verbatim>\<open>isString\<close> is set; otherwise the message
  "<field> must be an array." when \<^verbatim>\<open>isArray\<close> is set; otherwise no error. The length
  bounds and \<^verbatim>\<open>enumValues\<close> have no influence.
\<close>

theorem validateField_absent_optional:
  assumes "\<not> flag (isRequired rules)" and "v = JUndefined \<or> v = JNull"
  shows "validateField v rules =
     Inr (if flag (isString rules) then Some (fieldName rules @ '' must be a string.'')
          else if flag (isArray rules) then Some (fieldName rules @ '' must be an array.'')
          else None)"
  using assms by (auto simp: validateField_def stringChecks_def)

theorem validateField_absent_optional_witness:
  "\<not> flag (isRequired \<lparr>fieldName = ''tags'', isRequired = Some False, minLength = None,
       maxLength = None, isString = None, isArray = Some True, enumValues = Some [''a'']\<rparr>)
   \<and> validateField JNull \<lparr>fieldName = ''tags'', isRequired = Some False, minLength = None,
       maxLength = None, isString = None, isArray = Some True, enumValues = Some [''a'']\<rparr>
     = Inr (Some ''tags must be an array.'')"
  using validateField_absent_optional [of "\<lparr>fieldName = ''tags'', isRequired = Some False,
       minLength = None, maxLength = None, isString = None, isArray = Some True,
       enumValues = Some [''a'']\<rparr>" JNull]
  by (simp add: flag_def)

section \<open>Properties of the entity validator\<close>

text \<open>What a body must hold for each rule to yield no error.\<close>

lemma enumLoop_None_iff:
  "enumLoop fn vs items = Inr None \<longleftrightarrow> (\<forall>item\<in>set items. Array_includes vs item)"
  by (induction items) (auto split: sum.splits)

lemma validateField_title_None_iff:
  "validateField v titleRule = Inr None \<longleftrightarrow> (\<exists>s. v = JStr s \<and> 1 \<le> length s \<and> length s \<le> 40)"
  by (cases v) (auto simp: validateField_def stringChecks_def titleRule_def flag_def Suc_le_eq)

lemma validateField_author_None_iff:
  "validateField v authorRule = Inr None \<longleftrightarrow> (\<exists>s. v = JStr s \<and> 1 \<le> length s \<and> length s \<le> 20)"
  by (cases v) (auto simp: validateField_def stringChecks_def authorRule_def flag_def Suc_le_eq)

lemma validateField_resolutions_None_iff:
  "validateField v resolutionsRule = Inr None \<longleftrightarrow>
     (\<exists>items. v = JArr items \<and> (\<forall>item\<in>set items. Array_includes VideoQuality item))"
  by (cases v) (auto simp: validateField_def resolutionsRule_def flag_def enumLoop_None_iff)

lemma validateLoop_rules:
  "validateLoop reqBody validationRules [] =
    (case sequence [validateField (getProp reqBody ''title'') titleRule,
                    validateField (getProp reqBody ''author'') authorRule,
                    validateField (getProp reqBody ''availableResolutions'') resolutionsRule] of
       Inl e \<Rightarrow> Inl e
     | Inr results \<Rightarrow> Inr (nonNull results))"
proof -
  have fn: "fieldName titleRule = ''title''" "fieldName authorRule = ''author''"
    "fieldName resolutionsRule = ''availableResolutions''"
    by (simp_all add: titleRule_def authorRule_def resolutionsRule_def)
  show ?thesis
    unfolding validationRules_def
    by (auto simp: fn nonNull_def split: sum.splits option.splits dest: validateField_nonempty)
qed

lemma validateVideoInput_valid_iff:
  "validateVideoInput reqBody = Inr [] \<longleftrightarrow>
     validateField (getProp reqBody ''title'') titleRule = Inr None \<and>
     validateField (getProp reqBody ''author'') authorRule = Inr None \<and>
     validateField (getProp reqBody ''availableResolutions'') resolutionsRule = Inr None"
  by (auto simp: validateVideoInput_def validateLoop_rules nonNull_def
      split: sum.splits option.splits)

text \<open>When the field validator of \<^verbatim>\<open>availableResolutions\<close> returns, \<^verbatim>\<open>validateVideoInput\<close>
  returns the concatenation of the three results that are not \<^verbatim>\<open>null\<close>, in rule order: each
  rule is evaluated whatever the results of the others are. In general the outcome is
  that of the three calls in sequence.\<close>

lemma validateVideoInput_concat:
  "validateVideoInput reqBody =
    (case sequence [validateField (getProp reqBody ''title'') titleRule,
                    validateField (getProp reqBody ''author'') authorRule,
                    validateField (getProp reqBody ''availableResolutions'') resolutionsRule] of
       Inl e \<Rightarrow> Inl e
     | Inr results \<Rightarrow> Inr (nonNull results))"
  unfolding validateVideoInput_def by (rule validateLoop_rules)

lemma validateVideoInput_returns:
  assumes "validateField (getProp reqBody ''availableResolutions'') resolutionsRule = Inr r3"
  shows "\<exists>r1 r2.
     validateField (getProp reqBody ''title'') titleRule = Inr r1 \<and>
     validateField (getProp reqBody ''author'') authorRule = Inr r2 \<and>
     validateVideoInput reqBody = Inr (nonNull [r1, r2, r3])"
proof -
  obtain r1 where r1: "validateField (getProp reqBody ''title'') titleRule = Inr r1"
    using validateField_no_array [of titleRule] by (auto simp: titleRule_def flag_def)
  obtain r2 where r2: "validateField (getProp reqBody ''author'') authorRule = Inr r2"
    using validateField_no_array [of authorRule] by (auto simp: authorRule_def flag_def)
  show ?thesis
    using r1 r2 assms by (simp add: validateVideoInput_def validateLoop_rules)
qed

text \<open>
  C8 (for every payload the entity validator returns the concatenation of the field
  validator's messages, so that a payload failing several fields yields all of those
  messages). The payload \<^verbatim>\<open>{title: "", author: "", availableResolutions: [{toString: 1}]}\<close>
  fails all three fields. The field validator returns a message for the title and a
  message for the author; for \<^verbatim>\<open>availableResolutions\<close> it throws \<^verbatim>\<open>TypeError\<close> while it
  builds the message of line 71, and \<^verbatim>\<open>validateVideoInput\<close> is left by this exception: it
  returns no list, and the two messages are lost.
\<close>

theorem validateVideoInput_unprintable_item:
  "validateField
     (getProp [(''title'', JStr []), (''author'', JStr []),
               (''availableResolutions'', JArr [JObj [(''toString'', JNum (Num 1))]])] ''title'')
     titleRule = Inr (Some ''Invalid title length (minimum 1 characters).'') \<and>
   validateField
     (getProp [(''title'', JStr []), (''author'', JStr []),
               (''availableResolutions'', JArr [JObj [(''toString'', JNum (Num 1))]])] ''author'')
     authorRule = Inr (Some ''Invalid author length (minimum 1 characters).'') \<and>
   validateField
     (getProp [(''title'', JStr []), (''author'', JStr []),
               (''availableResolutions'', JArr [JObj [(''toString'', JNum (Num 1))]])]
        ''availableResolutions'')
     resolutionsRule = Inl TypeError \<and>
   validateVideoInput
     [(''title'', JStr []), (''author'', JStr []),
      (''availableResolutions'', JArr [JObj [(''toString'', JNum (Num 1))]])] = Inl TypeError"
  by code_simp

section \<open>Properties of dates\<close>

lemma toISOString_in_range: "\<bar>t\<bar> \<le> maxTime \<Longrightarrow> \<exists>s. toISOString t = Inr s"
  by (auto simp: toISOString_def Let_def split: prod.splits)

text \<open>The last digit of the milliseconds of an ISO string is the last digit of the time
  value, and the character of a digit determines the digit.\<close>

lemma digit_char_inj: "digit_char a = digit_char b \<Longrightarrow> a mod 10 = b mod 10"
proof -
  assume eq: "digit_char a = digit_char b"
  have d: "distinct ''0123456789''" by simp
  have la: "nat (a mod 10) < length ''0123456789''" and lb: "nat (b mod 10) < length ''0123456789''"
    by simp_all
  from eq have "nat (a mod 10) = nat (b mod 10)"
    unfolding digit_char_def using nth_eq_iff_index_eq [OF d la lb] by simp
  then show ?thesis by simp
qed

lemma digit_char_mod: "digit_char (t mod msPerDay mod 1000) = digit_char t"
proof -
  have "t mod msPerDay mod 1000 mod 10 = t mod 10"
    by (simp add: msPerDay_def mod_mod_cancel)
  then show ?thesis by (simp add: digit_char_def)
qed

lemma toISOString_last_digit:
  assumes "toISOString t = Inr s"
  shows "s ! (length s - 2) = digit_char t"
proof -
  obtain pre where "s = pre @ [digit_char (t mod msPerDay mod 1000), CHR ''Z'']"
    using assms
    by (auto simp: toISOString_def Let_def numeral_3_eq_3 split: if_splits prod.splits)
  then show ?thesis by (simp add: digit_char_mod nth_append)
qed

text \<open>No instant is rendered as \<^verbatim>\<open>1970-01-01T00:00:00.000Z\<close> while the instant 24 hours
  later is rendered as \<^verbatim>\<open>1970-01-02T00:00:00.001Z\<close>.\<close>

lemma not_a_day_apart:
  "\<not> (\<exists>t. toISOString t = Inr ''1970-01-01T00:00:00.000Z'' \<and>
          toISOString (t + msPerDay) = Inr ''1970-01-02T00:00:00.001Z'')"
proof
  assume "\<exists>t. toISOString t = Inr ''1970-01-01T00:00:00.000Z'' \<and>
          toISOString (t + msPerDay) = Inr ''1970-01-02T00:00:00.001Z''"
  then obtain t where a: "toISOString t = Inr ''1970-01-01T00:00:00.000Z''"
    and b: "toISOString (t + 86400000) = Inr ''1970-01-02T00:00:00.001Z''"
    by (auto simp: msPerDay_def)
  have "digit_char t = CHR ''0''"
    using toISOString_last_digit [OF a] by simp
  moreover have "digit_char 0 = CHR ''0''" by (simp add: digit_char_def)
  ultimately have t0: "t mod 10 = 0" using digit_char_inj [of t 0] by simp
  have "digit_char (t + 86400000) = CHR ''1''"
    using toISOString_last_digit [OF b] by simp
  moreover have "digit_char 1 = CHR ''1''" by (simp add: digit_char_def)
  ultimately have t1: "(t + 86400000) mod 10 = 1" using digit_char_inj [of "t + 86400000" 1] by simp
  from t0 t1 show False by presburger
qed

section \<open>Properties of the store\<close>

lemma findIndex_None_iff: "findIndex p xs = None \<longleftrightarrow> (\<forall>x\<in>set xs. \<not> p x)"
  by (induction xs) auto

lemma findIndex_Some:
  "findIndex p xs = Some i \<Longrightarrow> i < length xs \<and> p (xs ! i) \<and> (\<forall>j<i. \<not> p (xs ! j))"
proof (induction xs arbitrary: i)
  case Nil
  then show ?case by simp
next
  case (Cons x xs)
  then show ?case
    by (auto split: if_splits simp: nth_Cons split: nat.splits)
qed

subsection \<open>Create\<close>

lemma post_videos_invalid:
  "validateVideoInput reqBody = Inr errors \<Longrightarrow> errors \<noteq> [] \<Longrightarrow>
   post_videos now1 now2 now3 reqBody videos =
     (Inr \<lparr>statusCode = 400, jsonBody = errorsMessages errors\<rparr>, videos)"
  by (simp add: post_videos_def)

lemma post_videos_throws:
  "validateVideoInput reqBody = Inl e \<Longrightarrow>
   post_videos now1 now2 now3 reqBody videos = (Inl e, videos)"
  by (simp add: post_videos_def)

lemma post_videos_valid:
  assumes "validateVideoInput reqBody = Inr []"
    and "toISOString now2 = Inr createdAt"
    and "toISOString (now3 + msPerDay) = Inr publicationDate"
  shows "post_videos now1 now2 now3 reqBody videos =
     (Inr \<lparr>statusCode = 201, jsonBody = JObj (newVideo now1 createdAt publicationDate reqBody)\<rparr>,
      videos @ [newVideo now1 createdAt publicationDate reqBody])"
  using assms by (simp add: post_videos_def msPerDay_def Let_def)

lemma post_videos_store:
  "snd (post_videos now1 now2 now3 reqBody videos) = videos \<or>
   (\<exists>createdAt publicationDate. validateVideoInput reqBody = Inr [] \<and>
      snd (post_videos now1 now2 now3 reqBody videos) =
        videos @ [newVideo now1 createdAt publicationDate reqBody])"
  by (auto simp: post_videos_def Let_def split: sum.splits)

text \<open>
  C4 (amended). For every Create with a valid payload in which \<^verbatim>\<open>canBeDownloaded\<close> and
  \<^verbatim>\<open>minAgeRestriction\<close> are absent (and clock readings that are valid dates), the entity
  returned with status 201 is the entity appended to the store, and it has
  \<^verbatim>\<open>canBeDownloaded = false\<close>, \<^verbatim>\<open>minAgeRestriction = null\<close>, \<^verbatim>\<open>createdAt\<close> the ISO string of
  the clock reading of line 130 and \<^verbatim>\<open>publicationDate\<close> the ISO string of the clock reading
  of line 131 plus 86400000 ms. So \<^verbatim>\<open>publicationDate\<close> is \<^verbatim>\<open>createdAt\<close> plus exactly 24 hours
  whenever the two readings are the same millisecond (\<open>now3 = now2\<close>).
\<close>

theorem post_videos_defaults:
  assumes "validateVideoInput reqBody = Inr []"
    and "absent (getProp reqBody ''canBeDownloaded'')"
    and "absent (getProp reqBody ''minAgeRestriction'')"
    and "\<bar>now2\<bar> \<le> maxTime" and "\<bar>now3 + msPerDay\<bar> \<le> maxTime"
  shows "\<exists>video createdAt publicationDate.
     post_videos now1 now2 now3 reqBody videos =
       (Inr \<lparr>statusCode = 201, jsonBody = JObj video\<rparr>, videos @ [video]) \<and>
     getProp video ''canBeDownloaded'' = JBool False \<and>
     getProp video ''minAgeRestriction'' = JNull \<and>
     toISOString now2 = Inr createdAt \<and>
     getProp video ''createdAt'' = JStr createdAt \<and>
     toISOString (now3 + msPerDay) = Inr publicationDate \<and>
     getProp video ''publicationDate'' = JStr publicationDate \<and>
     (now3 = now2 \<longrightarrow> toISOString (now2 + msPerDay) = Inr publicationDate)"
proof -
  obtain c where c: "toISOString now2 = Inr c"
    using toISOString_in_range assms(4) by blast
  obtain p where p: "toISOString (now3 + msPerDay) = Inr p"
    using toISOString_in_range assms(5) by blast
  have "js_or (getProp reqBody ''canBeDownloaded'') (JBool False) = JBool False"
    "js_or (getProp reqBody ''minAgeRestriction'') JNull = JNull"
    using assms(2,3) by (auto simp: absent_def js_or_def)
  then show ?thesis
    using post_videos_valid [OF assms(1) c p, of now1 videos] c p
    by (auto simp: getProp_def newVideo_def)
qed

lemma sampleBody_valid: "validateVideoInput sampleBody = Inr []"
  by code_simp

theorem post_videos_defaults_witness:
  "validateVideoInput sampleBody = Inr [] \<and>
   absent (getProp sampleBody ''canBeDownloaded'') \<and>
   absent (getProp sampleBody ''minAgeRestriction'') \<and>
   (\<exists>video.
     post_videos 1700000000000 1700000000000 1700000000000 sampleBody [] =
       (Inr \<lparr>statusCode = 201, jsonBody = JObj video\<rparr>, [video]) \<and>
     getProp video ''canBeDownloaded'' = JBool False \<and>
     getProp video ''minAgeRestriction'' = JNull \<and>
     getProp video ''createdAt'' = JStr ''2023-11-14T22:13:20.000Z'' \<and>
     getProp video ''publicationDate'' = JStr ''2023-11-15T22:13:20.000Z'')"
proof -
  have v: "validateVideoInput sampleBody = Inr []" by (rule sampleBody_valid)
  have a1: "absent (getProp sampleBody ''canBeDownloaded'')"
    and a2: "absent (getProp sampleBody ''minAgeRestriction'')"
    by (simp_all add: absent_def getProp_def sampleBody_def)
  have r1: "\<bar>1700000000000\<bar> \<le> maxTime" and r2: "\<bar>1700000000000 + msPerDay\<bar> \<le> maxTime"
    by (simp_all add: maxTime_def msPerDay_def)
  have c: "toISOString 1700000000000 = Inr ''2023-11-14T22:13:20.000Z''" by code_simp
  have p: "toISOString (1700000000000 + msPerDay) = Inr ''2023-11-15T22:13:20.000Z''" by code_simp
  show ?thesis
    using post_videos_defaults [OF v a1 a2 r1 r2, of 1700000000000 "[]"] v a1 a2 c p
    by auto
qed

text \<open>
  C4 (as stated: \<^verbatim>\<open>publicationDate\<close> is \<^verbatim>\<open>createdAt\<close> plus exactly 24 hours). The two dates
  come from two readings of the clock. When the clock advances by one millisecond
  between line 130 and line 131, the entity created from the payload of the example has
  \<^verbatim>\<open>createdAt = 1970-01-01T00:00:00.000Z\<close> and
  \<^verbatim>\<open>publicationDate = 1970-01-02T00:00:00.001Z\<close>.
\<close>

theorem post_videos_publicationDate_counterexample:
  "\<not> (\<forall>now1 now2 now3 reqBody videos video.
        validateVideoInput reqBody = Inr [] \<and>
        absent (getProp reqBody ''canBeDownloaded'') \<and>
        absent (getProp reqBody ''minAgeRestriction'') \<and>
        post_videos now1 now2 now3 reqBody videos =
          (Inr \<lparr>statusCode = 201, jsonBody = JObj video\<rparr>, videos @ [video])
        \<longrightarrow> getProp video ''canBeDownloaded'' = JBool False \<and>
            getProp video ''minAgeRestriction'' = JNull \<and>
            (\<exists>t createdAt publicationDate.
               toISOString t = Inr createdAt \<and>
               toISOString (t + msPerDay) = Inr publicationDate \<and>
               getProp video ''createdAt'' = JStr createdAt \<and>
               getProp video ''publicationDate'' = JStr publicationDate))"
proof
  assume a: "\<forall>now1 now2 now3 reqBody videos video.
        validateVideoInput reqBody = Inr [] \<and>
        absent (getProp reqBody ''canBeDownloaded'') \<and>
        absent (getProp reqBody ''minAgeRestriction'') \<and>
        post_videos now1 now2 now3 reqBody videos =
          (Inr \<lparr>statusCode = 201, jsonBody = JObj video\<rparr>, videos @ [video])
        \<longrightarrow> getProp video ''canBeDownloaded'' = JBool False \<and>
            getProp video ''minAgeRestriction'' = JNull \<and>
            (\<exists>t createdAt publicationDate.
               toISOString t = Inr createdAt \<and>
               toISOString (t + msPerDay) = Inr publicationDate \<and>
               getProp video ''createdAt'' = JStr createdAt \<and>
               getProp video ''publicationDate'' = JStr publicationDate)"
  let ?video = "newVideo 0 ''1970-01-01T00:00:00.000Z'' ''1970-01-02T00:00:00.001Z'' sampleBody"
  have v: "validateVideoInput sampleBody = Inr []" by (rule sampleBody_valid)
  have a1: "absent (getProp sampleBody ''canBeDownloaded'')"
    and a2: "absent (getProp sampleBody ''minAgeRestriction'')"
    by (simp_all add: absent_def getProp_def sampleBody_def)
  have c: "toISOString 0 = Inr ''1970-01-01T00:00:00.000Z''" by code_simp
  have p: "toISOString (1 + msPerDay) = Inr ''1970-01-02T00:00:00.001Z''" by code_simp
  have post: "post_videos 0 0 1 sampleBody [] =
      (Inr \<lparr>statusCode = 201, jsonBody = JObj ?video\<rparr>, [] @ [?video])"
    using post_videos_valid [OF v c p, of 0 "[]"] by simp
  from a v a1 a2 post
  have "\<exists>t createdAt publicationDate.
               toISOString t = Inr createdAt \<and>
               toISOString (t + msPerDay) = Inr publicationDate \<and>
               getProp ?video ''createdAt'' = JStr createdAt \<and>
               getProp ?video ''publicationDate'' = JStr publicationDate"
    by blast
  then have "\<exists>t. toISOString t = Inr ''1970-01-01T00:00:00.000Z'' \<and>
          toISOString (t + msPerDay) = Inr ''1970-01-02T00:00:00.001Z''"
    by (auto simp: getProp_def newVideo_def)
  with not_a_day_apart show False by blast
qed

text \<open>
  C5 (as stated: a Create without \<^verbatim>\<open>availableResolutions\<close> succeeds and stores an empty
  list). The rule of line 83 has \<^verbatim>\<open>isRequired: true\<close>, so the payload
  \<^verbatim>\<open>{title: "A", author: "B"}\<close> is answered with status 400 and nothing is stored.
\<close>

theorem post_videos_resolutions_default_counterexample:
  "\<not> (\<forall>now1 now2 now3 reqBody videos.
        getProp reqBody ''availableResolutions'' = JUndefined
        \<longrightarrow> (\<exists>video. post_videos now1 now2 now3 reqBody videos =
                        (Inr \<lparr>statusCode = 201, jsonBody = JObj video\<rparr>, videos @ [video]) \<and>
                     getProp video ''availableResolutions'' = JArr []))"
proof
  assume a: "\<forall>now1 now2 now3 reqBody videos.
        getProp reqBody ''availableResolutions'' = JUndefined
        \<longrightarrow> (\<exists>video. post_videos now1 now2 now3 reqBody videos =
                        (Inr \<lparr>statusCode = 201, jsonBody = JObj video\<rparr>, videos @ [video]) \<and>
                     getProp video ''availableResolutions'' = JArr [])"
  let ?body = "[(''title'', JStr ''A''), (''author'', JStr ''B'')]"
  have "getProp ?body ''availableResolutions'' = JUndefined"
    by (simp add: getProp_def)
  with a have "\<exists>video. post_videos 0 0 0 ?body [] =
      (Inr \<lparr>statusCode = 201, jsonBody = JObj video\<rparr>, [] @ [video])"
    by blast
  moreover have "validateVideoInput ?body = Inr [''availableResolutions is required.'']"
    by code_simp
  ultimately show False
    by (simp add: post_videos_def)
qed

text \<open>
  C5 (amended). For every Create payload in which \<^verbatim>\<open>availableResolutions\<close> is absent
  (\<^verbatim>\<open>undefined\<close> or \<^verbatim>\<open>null\<close>), validation returns an error list whose last message is
  "availableResolutions is required.", Create answers with status 400 and that list, and
  the store is unchanged.
\<close>

theorem post_videos_resolutions_required:
  assumes "absent (getProp reqBody ''availableResolutions'')"
  shows "\<exists>errors.
     validateVideoInput reqBody = Inr (errors @ [''availableResolutions is required.'']) \<and>
     post_videos now1 now2 now3 reqBody videos =
       (Inr \<lparr>statusCode = 400,
             jsonBody = errorsMessages (errors @ [''availableResolutions is required.''])\<rparr>,
        videos)"
proof -
  obtain r1 where r1: "validateField (getProp reqBody ''title'') titleRule = Inr r1"
    using validateField_no_array [of titleRule] by (auto simp: titleRule_def flag_def)
  obtain r2 where r2: "validateField (getProp reqBody ''author'') authorRule = Inr r2"
    using validateField_no_array [of authorRule] by (auto simp: authorRule_def flag_def)
  have r3: "validateField (getProp reqBody ''availableResolutions'') resolutionsRule =
      Inr (Some ''availableResolutions is required.'')"
    using assms by (auto simp: validateField_def resolutionsRule_def flag_def absent_def)
  have v: "validateVideoInput reqBody =
      Inr (nonNull [r1, r2] @ [''availableResolutions is required.''])"
    by (simp add: validateVideoInput_def validateLoop_rules r1 r2 r3 nonNull_def)
  then show ?thesis
    using post_videos_invalid [OF v, of now1 now2 now3 videos] by blast
qed

theorem post_videos_resolutions_required_witness:
  "absent (getProp [(''title'', JStr ''A''), (''author'', JStr ''B'')] ''availableResolutions'') \<and>
   post_videos 0 0 0 [(''title'', JStr ''A''), (''author'', JStr ''B'')] [] =
     (Inr \<lparr>statusCode = 400,
           jsonBody = errorsMessages [''availableResolutions is required.'']\<rparr>, [])"
proof -
  let ?body = "[(''title'', JStr ''A''), (''author'', JStr ''B'')]"
  have a: "absent (getProp ?body ''availableResolutions'')"
    by (simp add: absent_def getProp_def)
  have v: "validateVideoInput ?body = Inr [''availableResolutions is required.'']"
    by code_simp
  show ?thesis
    using post_videos_resolutions_required [OF a, of 0 0 0 "[]"] a v by auto
qed

text \<open>The default of line 132 never applies: a payload that passes validation has an
  array as \<^verbatim>\<open>availableResolutions\<close>, an array is truthy, and it is stored as given.\<close>

lemma newVideo_resolutions:
  assumes "validateVideoInput reqBody = Inr []"
  shows "getProp (newVideo now1 createdAt publicationDate reqBody) ''availableResolutions''
         = getProp reqBody ''availableResolutions''"
  using assms
  by (auto simp: validateVideoInput_valid_iff validateField_resolutions_None_iff
      newVideo_def getProp_def js_or_def)

text \<open>
  C10. For every Create with a valid payload whose \<^verbatim>\<open>minAgeRestriction\<close> is falsy (0, the
  empty string, \<^verbatim>\<open>false\<close>; also \<^verbatim>\<open>null\<close> or absent), with clock readings that are valid
  dates, the entity returned and stored has \<^verbatim>\<open>minAgeRestriction = null\<close>.
\<close>

theorem post_videos_falsy_minAgeRestriction:
  assumes "validateVideoInput reqBody = Inr []"
    and "\<not> truthy (getProp reqBody ''minAgeRestriction'')"
    and "\<bar>now2\<bar> \<le> maxTime" and "\<bar>now3 + msPerDay\<bar> \<le> maxTime"
  shows "\<exists>video.
     post_videos now1 now2 now3 reqBody videos =
       (Inr \<lparr>statusCode = 201, jsonBody = JObj video\<rparr>, videos @ [video]) \<and>
     getProp video ''minAgeRestriction'' = JNull"
proof -
  obtain c where c: "toISOString now2 = Inr c"
    using toISOString_in_range assms(3) by blast
  obtain p where p: "toISOString (now3 + msPerDay) = Inr p"
    using toISOString_in_range assms(4) by blast
  have "getProp (newVideo now1 c p reqBody) ''minAgeRestriction'' = JNull"
    using assms(2) by (simp add: newVideo_def getProp_def js_or_def)
  then show ?thesis
    using post_videos_valid [OF assms(1) c p, of now1 videos] by blast
qed

theorem post_videos_falsy_minAgeRestriction_witness:
  "validateVideoInput (sampleBody @ [(''minAgeRestriction'', JNum (Num 0))]) = Inr [] \<and>
   \<not> truthy (getProp (sampleBody @ [(''minAgeRestriction'', JNum (Num 0))]) ''minAgeRestriction'') \<and>
   (\<exists>video.
     post_videos 5 5 5 (sampleBody @ [(''minAgeRestriction'', JNum (Num 0))]) [] =
       (Inr \<lparr>statusCode = 201, jsonBody = JObj video\<rparr>, [video]) \<and>
     getProp video ''minAgeRestriction'' = JNull)"
proof -
  let ?body = "sampleBody @ [(''minAgeRestriction'', JNum (Num 0))]"
  have v: "validateVideoInput ?body = Inr []" by code_simp
  have f: "\<not> truthy (getProp ?body ''minAgeRestriction'')"
    by (simp add: getProp_def sampleBody_def)
  have r1: "\<bar>5\<bar> \<le> maxTime" and r2: "\<bar>5 + msPerDay\<bar> \<le> maxTime"
    by (simp_all add: maxTime_def msPerDay_def)
  show ?thesis
    using post_videos_falsy_minAgeRestriction [OF v f r1 r2, of 5 "[]"] v f by auto
qed

text \<open>A payload with a title of length 0 or above 40, an author of length 0 or above 20,
  or an element of \<^verbatim>\<open>availableResolutions\<close> outside the enum values never passes
  validation: Create leaves the store as it is, and answers with status 400 and a list of
  messages that is not empty whenever \<^verbatim>\<open>validateVideoInput\<close> returns.\<close>

lemma post_videos_invalid_payload:
  assumes "(\<exists>s. getProp reqBody ''title'' = JStr s \<and> (length s = 0 \<or> length s > 40))
         \<or> (\<exists>s. getProp reqBody ''author'' = JStr s \<and> (length s = 0 \<or> length s > 20))
         \<or> (\<exists>items. getProp reqBody ''availableResolutions'' = JArr items \<and>
               (\<exists>item\<in>set items. \<not> Array_includes VideoQuality item))"
  shows "snd (post_videos now1 now2 now3 reqBody videos) = videos"
    and "validateVideoInput reqBody = Inr errors \<Longrightarrow>
         errors \<noteq> [] \<and>
         post_videos now1 now2 now3 reqBody videos =
           (Inr \<lparr>statusCode = 400, jsonBody = errorsMessages errors\<rparr>, videos)"
proof -
  have nv: "validateVideoInput reqBody \<noteq> Inr []"
    using assms
    by (auto simp: validateVideoInput_valid_iff validateField_title_None_iff
        validateField_author_None_iff validateField_resolutions_None_iff)
  then show "snd (post_videos now1 now2 now3 reqBody videos) = videos"
    by (auto simp: post_videos_def split: sum.splits)
  show "validateVideoInput reqBody = Inr errors \<Longrightarrow>
         errors \<noteq> [] \<and>
         post_videos now1 now2 now3 reqBody videos =
           (Inr \<lparr>statusCode = 400, jsonBody = errorsMessages errors\<rparr>, videos)"
    using nv by (auto simp: post_videos_invalid)
qed

text \<open>
  C7 (Create with a payload that has an \<^verbatim>\<open>availableResolutions\<close> element outside the enum
  set signals ValidationFailed). The payload
  \<^verbatim>\<open>{title: "A", author: "B", availableResolutions: [{toString: 1}]}\<close> has such an element.
  Line 71 builds the message with \<^verbatim>\<open>`${item}`\<close>, and the conversion of this object to a
  string throws \<^verbatim>\<open>TypeError\<close>: the handler is left by the exception and no 400 response is
  sent. The store is unchanged.
\<close>

theorem post_videos_unprintable_item:
  "\<not> Array_includes VideoQuality (JObj [(''toString'', JNum (Num 1))]) \<and>
   post_videos now1 now2 now3
     [(''title'', JStr ''A''), (''author'', JStr ''B''),
      (''availableResolutions'', JArr [JObj [(''toString'', JNum (Num 1))]])] videos
   = (Inl TypeError, videos)"
proof -
  have "validateVideoInput
     [(''title'', JStr ''A''), (''author'', JStr ''B''),
      (''availableResolutions'', JArr [JObj [(''toString'', JNum (Num 1))]])] = Inl TypeError"
    by code_simp
  then show ?thesis by (simp add: post_videos_throws)
qed

subsection \<open>Update\<close>

text \<open>
  C6. For every Update: when \<^verbatim>\<open>validateVideoInput\<close> yields a list of errors that is not
  empty, the answer is status 400 with that list and the store is unchanged, whatever
  the id and the store are; when validation passes and no stored video has the id, the
  answer is status 404 and the store is unchanged.
\<close>

theorem put_videos_validation_first:
  "(validateVideoInput reqBody = Inr errors \<and> errors \<noteq> [] \<longrightarrow>
      put_videos rid reqBody videos =
        (Inr \<lparr>statusCode = 400, jsonBody = errorsMessages errors\<rparr>, videos))
   \<and> (validateVideoInput reqBody = Inr [] \<and> (\<forall>video\<in>set videos. \<not> hasId rid video) \<longrightarrow>
      put_videos rid reqBody videos =
        (Inr \<lparr>statusCode = 404,
              jsonBody = JObj [(''errorsMessages'',
                JArr [JObj [(''message'', JStr ''Video not found''), (''field'', JStr ''id'')]])]\<rparr>,
         videos))"
proof (intro conjI impI)
  assume "validateVideoInput reqBody = Inr errors \<and> errors \<noteq> []"
  then show "put_videos rid reqBody videos =
        (Inr \<lparr>statusCode = 400, jsonBody = errorsMessages errors\<rparr>, videos)"
    by (simp add: put_videos_def)
next
  assume a: "validateVideoInput reqBody = Inr [] \<and> (\<forall>video\<in>set videos. \<not> hasId rid video)"
  then have "findIndex (hasId rid) videos = None"
    by (simp add: findIndex_None_iff)
  with a show "put_videos rid reqBody videos =
        (Inr \<lparr>statusCode = 404,
              jsonBody = JObj [(''errorsMessages'',
                JArr [JObj [(''message'', JStr ''Video not found''), (''field'', JStr ''id'')]])]\<rparr>,
         videos)"
    by (simp add: put_videos_def)
qed

theorem put_videos_validation_first_witness:
  "put_videos (Num 7) [(''title'', JStr ''A'')] [[(''id'', JNum (Num 7))]] =
     (Inr \<lparr>statusCode = 400,
           jsonBody = errorsMessages [''author is required.'', ''availableResolutions is required.'']\<rparr>,
      [[(''id'', JNum (Num 7))]])
   \<and> put_videos (Num 8) sampleBody [[(''id'', JNum (Num 7))]] =
     (Inr \<lparr>statusCode = 404,
           jsonBody = JObj [(''errorsMessages'',
             JArr [JObj [(''message'', JStr ''Video not found''), (''field'', JStr ''id'')]])]\<rparr>,
      [[(''id'', JNum (Num 7))]])"
proof -
  have e: "validateVideoInput [(''title'', JStr ''A'')] =
      Inr [''author is required.'', ''availableResolutions is required.'']"
    by code_simp
  have v: "validateVideoInput sampleBody = Inr []" by (rule sampleBody_valid)
  have n: "\<forall>video\<in>set [[(''id'', JNum (Num 7))]]. \<not> hasId (Num 8) video"
    by (simp add: hasId_def getProp_def)
  show ?thesis
    using put_videos_validation_first [where reqBody = "[(''title'', JStr ''A'')]"
        and errors = "[''author is required.'', ''availableResolutions is required.'']"
        and rid = "Num 7" and videos = "[[(''id'', JNum (Num 7))]]"]
      put_videos_validation_first [where reqBody = sampleBody and rid = "Num 8"
        and videos = "[[(''id'', JNum (Num 7))]]"]
      e v n
    by simp
qed

subsection \<open>Delete and List\<close>

lemma splice_delete: "Array_splice i (Suc 0) [] xs = take i xs @ drop (Suc i) xs"
  by (simp add: Array_splice_def)

lemma splice_replace: "i < length xs \<Longrightarrow> Array_splice i (Suc 0) [x] xs = xs[i := x]"
  by (simp add: Array_splice_def upd_conv_take_nth_drop)

lemma delete_videos_success:
  assumes "delete_videos rid videos = (Inr res, videos')" and "statusCode res = 204"
  shows "\<exists>i<length videos. findIndex (hasId rid) videos = Some i \<and> hasId rid (videos ! i) \<and>
           videos' = take i videos @ drop (Suc i) videos"
  using assms
  by (auto simp: delete_videos_def splice_delete split: option.splits dest: findIndex_Some)

lemma post_videos_created:
  assumes "post_videos now1 now2 now3 reqBody videos = (Inr res, videos')"
    and "statusCode res = 201"
  shows "\<exists>video. res = \<lparr>statusCode = 201, jsonBody = JObj video\<rparr> \<and> videos' = videos @ [video]"
  using assms
  by (auto simp: post_videos_def Let_def split: sum.splits if_splits)

lemma run_creates:
  assumes "run (map (\<lambda>(now1, now2, now3, reqBody). PostVideos now1 now2 now3 reqBody) posts) videos
            = (outs, videos')"
    and "\<forall>out\<in>set outs. \<exists>res. out = Inr res \<and> statusCode res = 201"
  shows "\<exists>new. videos' = videos @ new \<and> length new = length posts \<and>
           outs = map (\<lambda>video. Inr \<lparr>statusCode = 201, jsonBody = JObj video\<rparr>) new"
  using assms
proof (induction posts arbitrary: videos outs videos')
  case Nil
  then show ?case by simp
next
  case (Cons p posts)
  obtain now1 now2 now3 reqBody where p: "p = (now1, now2, now3, reqBody)"
    by (cases p) auto
  obtain out1 videos1 where h: "post_videos now1 now2 now3 reqBody videos = (out1, videos1)"
    by (cases "post_videos now1 now2 now3 reqBody videos") auto
  obtain outs1 videos2 where
    r: "run (map (\<lambda>(now1, now2, now3, reqBody). PostVideos now1 now2 now3 reqBody) posts) videos1
          = (outs1, videos2)"
    by (cases "run (map (\<lambda>(now1, now2, now3, reqBody). PostVideos now1 now2 now3 reqBody) posts) videos1") auto
  from Cons.prems(1) p h r have o: "outs = out1 # outs1" and v: "videos' = videos2"
    by auto
  from Cons.prems(2) o obtain res where res: "out1 = Inr res" "statusCode res = 201"
    by auto
  from post_videos_created [of now1 now2 now3 reqBody videos res videos1] h res
  obtain video where video: "res = \<lparr>statusCode = 201, jsonBody = JObj video\<rparr>"
      "videos1 = videos @ [video]"
    by auto
  from Cons.prems(2) o have "\<forall>out\<in>set outs1. \<exists>res. out = Inr res \<and> statusCode res = 201"
    by simp
  from Cons.IH [OF r this] obtain new where new: "videos2 = videos1 @ new"
      "length new = length posts"
      "outs1 = map (\<lambda>video. Inr \<lparr>statusCode = 201, jsonBody = JObj video\<rparr>) new"
    by blast
  show ?case
    using o v res video new by (intro exI [of _ "video # new"]) simp
qed

text \<open>
  C9. Let \<open>N\<close> Creates be handled from the empty store, one after the other, each answered
  with status 201, and let a Delete that follows be answered with status 204. Then the
  store before the Delete holds exactly the \<open>N\<close> created entities in the order of their
  creation; the Delete removes one entity, which has the requested id, and keeps the
  others in their order; and List then answers with these \<open>N - 1\<close> entities in that
  order.
\<close>

theorem list_after_creates_and_delete:
  assumes "run (map (\<lambda>(now1, now2, now3, reqBody). PostVideos now1 now2 now3 reqBody) posts) []
            = (outs, videos)"
    and "\<forall>out\<in>set outs. \<exists>res. out = Inr res \<and> statusCode res = 201"
    and "delete_videos rid videos = (Inr res, videos')" and "statusCode res = 204"
  shows "outs = map (\<lambda>video. Inr \<lparr>statusCode = 201, jsonBody = JObj video\<rparr>) videos \<and>
         length videos = length posts \<and>
         (\<exists>i<length videos. hasId rid (videos ! i) \<and>
              videos' = take i videos @ drop (Suc i) videos) \<and>
         length videos' = length posts - 1 \<and>
         get_videos videos' = (Inr \<lparr>statusCode = 200, jsonBody = JArr (map JObj videos')\<rparr>, videos')"
proof -
  from run_creates [OF assms(1,2)]
  have c: "outs = map (\<lambda>video. Inr \<lparr>statusCode = 201, jsonBody = JObj video\<rparr>) videos"
    and l: "length videos = length posts"
    by auto
  from delete_videos_success [OF assms(3,4)]
  obtain i where i: "i < length videos" "hasId rid (videos ! i)"
      "videos' = take i videos @ drop (Suc i) videos"
    by blast
  then have "length videos' = length posts - 1"
    using l by auto
  with c l i show ?thesis
    by (auto simp: get_videos_def)
qed

theorem list_after_creates_and_delete_witness:
  "run (map (\<lambda>(now1, now2, now3, reqBody). PostVideos now1 now2 now3 reqBody)
        [(1, 1, 1, sampleBody), (2, 2, 2, sampleBody)]) []
     = ([Inr \<lparr>statusCode = 201, jsonBody = JObj
           (newVideo 1 ''1970-01-01T00:00:00.001Z'' ''1970-01-02T00:00:00.001Z'' sampleBody)\<rparr>,
         Inr \<lparr>statusCode = 201, jsonBody = JObj
           (newVideo 2 ''1970-01-01T00:00:00.002Z'' ''1970-01-02T00:00:00.002Z'' sampleBody)\<rparr>],
        [newVideo 1 ''1970-01-01T00:00:00.001Z'' ''1970-01-02T00:00:00.001Z'' sampleBody,
         newVideo 2 ''1970-01-01T00:00:00.002Z'' ''1970-01-02T00:00:00.002Z'' sampleBody])
   \<and> delete_videos (Num 1)
        [newVideo 1 ''1970-01-01T00:00:00.001Z'' ''1970-01-02T00:00:00.001Z'' sampleBody,
         newVideo 2 ''1970-01-01T00:00:00.002Z'' ''1970-01-02T00:00:00.002Z'' sampleBody]
     = (Inr \<lparr>statusCode = 204, jsonBody = JUndefined\<rparr>,
        [newVideo 2 ''1970-01-01T00:00:00.002Z'' ''1970-01-02T00:00:00.002Z'' sampleBody])
   \<and> get_videos [newVideo 2 ''1970-01-01T00:00:00.002Z'' ''1970-01-02T00:00:00.002Z'' sampleBody]
     = (Inr \<lparr>statusCode = 200, jsonBody = JArr [JObj
           (newVideo 2 ''1970-01-01T00:00:00.002Z'' ''1970-01-02T00:00:00.002Z'' sampleBody)]\<rparr>,
        [newVideo 2 ''1970-01-01T00:00:00.002Z'' ''1970-01-02T00:00:00.002Z'' sampleBody])"
proof -
  let ?v1 = "newVideo 1 ''1970-01-01T00:00:00.001Z'' ''1970-01-02T00:00:00.001Z'' sampleBody"
  let ?v2 = "newVideo 2 ''1970-01-01T00:00:00.002Z'' ''1970-01-02T00:00:00.002Z'' sampleBody"
  have r: "run (map (\<lambda>(now1, now2, now3, reqBody). PostVideos now1 now2 now3 reqBody)
        [(1, 1, 1, sampleBody), (2, 2, 2, sampleBody)]) []
     = ([Inr \<lparr>statusCode = 201, jsonBody = JObj ?v1\<rparr>,
         Inr \<lparr>statusCode = 201, jsonBody = JObj ?v2\<rparr>], [?v1, ?v2])"
    by code_simp
  have s: "\<forall>out\<in>set [Inr \<lparr>statusCode = 201, jsonBody = JObj ?v1\<rparr>,
         Inr \<lparr>statusCode = 201, jsonBody = JObj ?v2\<rparr>]. \<exists>res. out = Inr res \<and> statusCode res = 201"
    by simp
  have d: "delete_videos (Num 1) [?v1, ?v2] = (Inr \<lparr>statusCode = 204, jsonBody = JUndefined\<rparr>, [?v2])"
    by code_simp
  have c: "statusCode \<lparr>statusCode = 204, jsonBody = JUndefined\<rparr> = 204"
    by simp
  show ?thesis
    using list_after_creates_and_delete [OF r s d c] r d by simp
qed

subsection \<open>Ids under sequences of requests\<close>

lemma snd_run_Cons: "snd (run (r # rs) videos) = snd (run rs (snd (handle r videos)))"
  by (simp split: prod.splits)

lemma map_of_fold_update:
  "k \<notin> fst ` set b \<Longrightarrow> map_of (fold (\<lambda>(k, v). AList.update k v) b a) k = map_of a k"
  by (induction b arbitrary: a) (auto simp: update_conv')

lemma idOf_spread: "''id'' \<notin> fst ` set b \<Longrightarrow> idOf (spread a b) = idOf a"
  by (simp add: idOf_def getProp_def spread_def map_of_fold_update)

lemma idOf_newVideo: "idOf (newVideo now1 createdAt publicationDate reqBody) = JNum (Num now1)"
  by (simp add: idOf_def getProp_def newVideo_def)

text \<open>The spread of an old video and a body that has an own property \<^verbatim>\<open>id\<close> has the id of
  the body.\<close>

lemma map_of_fold_update_Some:
  "distinct (map fst b) \<Longrightarrow> map_of b k = Some v \<Longrightarrow>
   map_of (fold (\<lambda>(k, v). AList.update k v) b a) k = Some v"
proof (induction b arbitrary: a)
  case Nil
  then show ?case by simp
next
  case (Cons p b)
  obtain k' v' where p: "p = (k', v')" by (cases p) auto
  show ?case
  proof (cases "k' = k")
    case True
    with Cons.prems p have "v' = v" and "k \<notin> fst ` set b" by auto
    with True p show ?thesis by (simp add: map_of_fold_update update_conv')
  next
    case False
    with Cons p show ?thesis by simp
  qed
qed

lemma idOf_spread_overwritten:
  "distinct (map fst b) \<Longrightarrow> map_of b ''id'' = Some v \<Longrightarrow> idOf (spread a b) = v"
  by (simp add: idOf_def getProp_def spread_def map_of_fold_update_Some)

lemma idOf_update_spread:
  assumes "''id'' \<notin> fst ` set b"
  shows "idOf (xs[k := spread (xs ! k) b] ! j) = idOf (xs ! j)"
proof (cases "k < length xs")
  case True
  then show ?thesis using assms by (simp add: nth_list_update idOf_spread)
next
  case False
  then have "xs[k := spread (xs ! k) b] = xs" by (simp add: list_update_beyond)
  then show ?thesis by simp
qed

text \<open>The store after one request, for each kind of request.\<close>

lemma put_videos_store:
  "snd (put_videos rid reqBody videos) =
     (case findIndex (hasId rid) videos of
        None \<Rightarrow> videos
      | Some i \<Rightarrow>
          if validateVideoInput reqBody = Inr [] then videos[i := spread (videos ! i) reqBody]
          else videos)"
proof (cases "findIndex (hasId rid) videos")
  case None
  then show ?thesis by (simp add: put_videos_def split: sum.splits)
next
  case (Some i)
  then have "i < length videos" by (auto dest: findIndex_Some)
  with Some show ?thesis
    by (auto simp: put_videos_def splice_replace split: sum.splits)
qed

lemma delete_videos_store:
  "snd (delete_videos rid videos) =
     (case findIndex (hasId rid) videos of
        None \<Rightarrow> videos
      | Some i \<Rightarrow> take i videos @ drop (Suc i) videos)"
  by (simp add: delete_videos_def splice_delete split: option.splits)

lemma post_videos_store_ids:
  "snd (post_videos now1 now2 now3 reqBody videos) = videos \<or>
   (\<exists>video. snd (post_videos now1 now2 now3 reqBody videos) = videos @ [video] \<and>
      idOf video = JNum (Num now1))"
  using post_videos_store [of now1 now2 now3 reqBody videos] by (auto simp: idOf_newVideo)



text \<open>How the ids of the store change with one request, and the id that a Create stores.\<close>

lemma clockIds_append: "clockIds (xs @ ys) = clockIds xs @ clockIds ys"
  by (induction xs rule: clockIds.induct) simp_all

lemma handle_ids:
  assumes "\<not> carriesId r"
  shows "map idOf (snd (handle r videos)) = map idOf videos
       \<or> (\<exists>i. map idOf (snd (handle r videos)) = take i (map idOf videos) @ drop (Suc i) (map idOf videos))
       \<or> (\<exists>now1 now2 now3 reqBody. r = PostVideos now1 now2 now3 reqBody \<and>
             map idOf (snd (handle r videos)) = map idOf videos @ [JNum (Num now1)])"
proof (cases r)
  case GetVideos
  then show ?thesis by (simp add: get_videos_def)
next
  case (GetVideo rid)
  then show ?thesis by (simp add: get_video_def split: option.splits)
next
  case (PostVideos now1 now2 now3 reqBody)
  with post_videos_store_ids [of now1 now2 now3 reqBody videos] show ?thesis
    by auto
next
  case (PutVideos rid reqBody)
  with assms have "''id'' \<notin> fst ` set reqBody" by (simp add: carriesId_def)
  then have "map idOf (snd (put_videos rid reqBody videos)) = map idOf videos"
    by (auto simp: put_videos_store idOf_update_spread list_eq_iff_nth_eq split: option.splits)
  with PutVideos show ?thesis by simp
next
  case (DeleteVideos rid)
  then show ?thesis
    by (auto simp: delete_videos_store take_map drop_map split: option.splits)
qed

lemma distinct_remove_nth: "distinct xs \<Longrightarrow> distinct (take i xs @ drop (Suc i) xs)"
  using set_take_disj_set_drop_if_distinct [of xs i "Suc i"] by simp

lemma set_remove_nth: "set (take i xs @ drop (Suc i) xs) \<subseteq> set xs"
  by (auto dest: in_set_takeD in_set_dropD)






lemma run_ids_distinct:
  assumes "distinct (map idOf videos)" and "set (map idOf videos) \<inter> set (clockIds rs) = {}"
    and "distinct (clockIds rs)" and "\<forall>r\<in>set rs. \<not> carriesId r"
  shows "distinct (map idOf (snd (run rs videos)))"
  using assms
proof (induction rs arbitrary: videos)
  case Nil
  then show ?case by simp
next
  case (Cons r rs)
  let ?videos1 = "snd (handle r videos)"
  from Cons.prems(4) have r: "\<not> carriesId r" and rs: "\<forall>r\<in>set rs. \<not> carriesId r"
    by simp_all
  have d: "distinct (clockIds rs)" and sub: "set (clockIds rs) \<subseteq> set (clockIds (r # rs))"
    using Cons.prems(3) by (cases r; simp; blast)+
  have "distinct (map idOf ?videos1) \<and> set (map idOf ?videos1) \<inter> set (clockIds rs) = {}"
    using handle_ids [OF r, of videos]
  proof (elim disjE exE conjE)
    assume "map idOf ?videos1 = map idOf videos"
    with Cons.prems(1,2) sub show ?thesis by auto
  next
    fix i
    assume "map idOf ?videos1 = take i (map idOf videos) @ drop (Suc i) (map idOf videos)"
    with Cons.prems(1,2) sub distinct_remove_nth [of "map idOf videos" i]
      set_remove_nth [of i "map idOf videos"]
    show ?thesis by auto
  next
    fix now1 now2 now3 reqBody
    assume p: "r = PostVideos now1 now2 now3 reqBody"
      and m: "map idOf ?videos1 = map idOf videos @ [JNum (Num now1)]"
    from p Cons.prems(2) have "JNum (Num now1) \<notin> set (map idOf videos)" by auto
    moreover from p Cons.prems(3) have "JNum (Num now1) \<notin> set (clockIds rs)" by simp
    ultimately show ?thesis
      using m Cons.prems(1,2) sub by auto
  qed
  with Cons.IH [of ?videos1] d rs show ?case
    by (simp only: snd_run_Cons)
qed

text \<open>
  C3 (as stated: the ids in the store are pairwise distinct after every sequence of
  operations). The id of a new entity is the clock reading of line 125, and nothing
  compares it with the ids in the store: two Creates in the same millisecond store two
  entities with the same id.
\<close>

theorem ids_distinct_counterexample:
  "\<not> (\<forall>rs n. distinct (map idOf (snd (run (take n rs) []))))"
proof
  assume "\<forall>rs n. distinct (map idOf (snd (run (take n rs) [])))"
  then have "distinct (map idOf (snd (run (take 2
      [PostVideos 5 5 5 sampleBody, PostVideos 5 5 5 sampleBody]) [])))"
    by blast
  moreover have "map idOf (snd (run (take 2
      [PostVideos 5 5 5 sampleBody, PostVideos 5 5 5 sampleBody]) [])) = [JNum (Num 5), JNum (Num 5)]"
    by code_simp
  ultimately show False by simp
qed

text \<open>
  C3 (amended). For every sequence of requests handled from the empty store in which the
  Creates read pairwise different clock values at line 125 and no Update payload has an
  own property \<^verbatim>\<open>id\<close>, the ids of the entities in the store are pairwise distinct after
  every request of the sequence.
\<close>

theorem ids_distinct_with_distinct_clock:
  assumes "distinct (clockIds rs)" and "\<forall>r\<in>set rs. \<not> carriesId r"
  shows "distinct (map idOf (snd (run (take n rs) [])))"
proof -
  have "clockIds rs = clockIds (take n rs) @ clockIds (drop n rs)"
    by (simp add: clockIds_append [symmetric])
  with assms(1) have d: "distinct (clockIds (take n rs))"
    by simp
  from assms(2) have c: "\<forall>r\<in>set (take n rs). \<not> carriesId r"
    by (auto dest: in_set_takeD)
  show ?thesis
    using run_ids_distinct [OF _ _ d c, of "[]"] by simp
qed

theorem ids_distinct_with_distinct_clock_witness:
  "distinct (clockIds [PostVideos 1 1 1 sampleBody, PostVideos 2 2 2 sampleBody,
       PutVideos (Num 1) (sampleBody @ [(''canBeDownloaded'', JBool True)]),
       DeleteVideos (Num 2), PostVideos 3 3 3 sampleBody])
   \<and> \<not> carriesId (PutVideos (Num 1) (sampleBody @ [(''canBeDownloaded'', JBool True)]))
   \<and> map idOf (snd (run (take 3 [PostVideos 1 1 1 sampleBody, PostVideos 2 2 2 sampleBody,
       PutVideos (Num 1) (sampleBody @ [(''canBeDownloaded'', JBool True)]),
       DeleteVideos (Num 2), PostVideos 3 3 3 sampleBody]) [])) = [JNum (Num 1), JNum (Num 2)]
   \<and> distinct (map idOf (snd (run (take 3 [PostVideos 1 1 1 sampleBody, PostVideos 2 2 2 sampleBody,
       PutVideos (Num 1) (sampleBody @ [(''canBeDownloaded'', JBool True)]),
       DeleteVideos (Num 2), PostVideos 3 3 3 sampleBody]) [])))"
proof -
  let ?rs = "[PostVideos 1 1 1 sampleBody, PostVideos 2 2 2 sampleBody,
       PutVideos (Num 1) (sampleBody @ [(''canBeDownloaded'', JBool True)]),
       DeleteVideos (Num 2), PostVideos 3 3 3 sampleBody]"
  have d: "distinct (clockIds ?rs)" by simp
  have c: "\<forall>r\<in>set ?rs. \<not> carriesId r"
    by (simp add: carriesId_def sampleBody_def)
  have m: "map idOf (snd (run (take 3 ?rs) [])) = [JNum (Num 1), JNum (Num 2)]"
    by code_simp
  show ?thesis
    using ids_distinct_with_distinct_clock [OF d c, of 3] d c m by simp
qed

end
